theory Spec2Isabelle
  imports Complex_Main "HOL-Library.AList"
begin

section \<open>Python values, errors and numpy matrices\<close>

text \<open>
  Every \<^verbatim>\<open>raise\<close>, failed \<^verbatim>\<open>assert\<close>, bad index and shape mismatch of the source
  is a value \<open>Inl e\<close>; a call that returns is \<open>Inr\<close> of its result and the new state.
  Floating-point numbers are idealised as reals.
\<close>

datatype error =
  AssertionError | KeyError | IndexError | ValueError | TypeError | AttributeError
  | UnboundLocalError | ZeroDivisionError

definition thenE :: "error + 'a \<Rightarrow> ('a \<Rightarrow> error + 'b) \<Rightarrow> error + 'b" where
  "thenE m f = (case m of Inl e \<Rightarrow> Inl e | Inr x \<Rightarrow> f x)"

text \<open>
  A two-dimensional array is the list of its rows. Its shape is read off the list, so an
  array with no rows has no columns either (a batch is never empty here).
\<close>

type_synonym matrix = "real list list"

definition nrows :: "matrix \<Rightarrow> nat" where
  "nrows M = length M"

definition ncols :: "matrix \<Rightarrow> nat" where
  "ncols M = (case M of [] \<Rightarrow> 0 | r # _ \<Rightarrow> length r)"

definition mk_matrix :: "nat \<Rightarrow> nat \<Rightarrow> (nat \<Rightarrow> nat \<Rightarrow> real) \<Rightarrow> matrix" where
  "mk_matrix r c f = map (\<lambda>i. map (\<lambda>j. f i j) [0..<c]) [0..<r]"

definition np_zeros :: "nat \<Rightarrow> nat \<Rightarrow> matrix" where
  "np_zeros r c = mk_matrix r c (\<lambda>i j. 0)"

definition zeros_like_m :: "matrix \<Rightarrow> matrix" where
  "zeros_like_m M = map (map (\<lambda>x. 0)) M"

definition np_T :: "matrix \<Rightarrow> matrix" where
  "np_T M = mk_matrix (ncols M) (nrows M) (\<lambda>i j. M ! j ! i)"

definition np_dot :: "matrix \<Rightarrow> matrix \<Rightarrow> error + matrix" where
  "np_dot A B =
     (if ncols A = nrows B
      then Inr (mk_matrix (nrows A) (ncols B)
                 (\<lambda>i j. sum_list (map (\<lambda>k. A ! i ! k * B ! k ! j) [0..<ncols A])))
      else Inl ValueError)"

text \<open>numpy broadcasting of two 2-d shapes: equal extents, or one of them 1.\<close>

definition bcast_dim :: "nat \<Rightarrow> nat \<Rightarrow> nat option" where
  "bcast_dim a b =
     (if a = b then Some a else if a = 1 then Some b else if b = 1 then Some a else None)"

definition bget :: "matrix \<Rightarrow> nat \<Rightarrow> nat \<Rightarrow> real" where
  "bget M i j = M ! (if nrows M = 1 then 0 else i) ! (if ncols M = 1 then 0 else j)"

definition np_binop :: "(real \<Rightarrow> real \<Rightarrow> real) \<Rightarrow> matrix \<Rightarrow> matrix \<Rightarrow> error + matrix" where
  "np_binop f A B =
     (case (bcast_dim (nrows A) (nrows B), bcast_dim (ncols A) (ncols B)) of
        (Some r, Some c) \<Rightarrow> Inr (mk_matrix r c (\<lambda>i j. f (bget A i j) (bget B i j)))
      | _ \<Rightarrow> Inl ValueError)"

definition np_add :: "matrix \<Rightarrow> matrix \<Rightarrow> error + matrix" where
  "np_add = np_binop (+)"

definition np_sub :: "matrix \<Rightarrow> matrix \<Rightarrow> error + matrix" where
  "np_sub = np_binop (-)"

definition np_mul :: "matrix \<Rightarrow> matrix \<Rightarrow> error + matrix" where
  "np_mul = np_binop (*)"

text \<open>\<^verbatim>\<open>M.sum(axis=0, keepdims=True)\<close>: one row holding the column sums.\<close>

definition sum_axis0 :: "matrix \<Rightarrow> matrix" where
  "sum_axis0 M = mk_matrix 1 (ncols M) (\<lambda>i j. sum_list (map (\<lambda>r. r ! j) M))"

text \<open>
  A four-dimensional array (examples, rows, columns, channels) is a list of lists as
  well; its extents are read off the first elements.
\<close>

type_synonym tensor4 = "real list list list list"

definition dim1 :: "tensor4 \<Rightarrow> nat" where
  "dim1 T = length T"

definition dim2 :: "tensor4 \<Rightarrow> nat" where
  "dim2 T = (case T of [] \<Rightarrow> 0 | a # _ \<Rightarrow> length a)"

definition dim3 :: "tensor4 \<Rightarrow> nat" where
  "dim3 T = (case T of [] \<Rightarrow> 0 | a # _ \<Rightarrow> (case a of [] \<Rightarrow> 0 | b # _ \<Rightarrow> length b))"

definition dim4 :: "tensor4 \<Rightarrow> nat" where
  "dim4 T = (case T of [] \<Rightarrow> 0 | a # _ \<Rightarrow> (case a of [] \<Rightarrow> 0 | b # _ \<Rightarrow> ncols b))"

definition mk_tensor4 ::
  "nat \<Rightarrow> nat \<Rightarrow> nat \<Rightarrow> nat \<Rightarrow> (nat \<Rightarrow> nat \<Rightarrow> nat \<Rightarrow> nat \<Rightarrow> real) \<Rightarrow> tensor4" where
  "mk_tensor4 n r c k f =
     map (\<lambda>m. map (\<lambda>i. map (\<lambda>j. map (\<lambda>ch. f m i j ch) [0..<k]) [0..<c]) [0..<r]) [0..<n]"

definition zeros_like_t :: "tensor4 \<Rightarrow> tensor4" where
  "zeros_like_t T = map (map (map (map (\<lambda>x. 0)))) T"

text \<open>
  The values a layer keeps in its dictionaries: \<^verbatim>\<open>None\<close>, an integer, a two- or
  four-dimensional array, or a Python list of arrays (the per-timestep caches of the
  recurrent cells).
\<close>

datatype pyval = PNone | PInt int | PArr matrix | PList "matrix list" | PArr4 tensor4

type_synonym dict = "(string \<times> pyval) list"

definition dict_get :: "dict \<Rightarrow> string \<Rightarrow> error + pyval" where
  "dict_get d k = (case map_of d k of None \<Rightarrow> Inl KeyError | Some v \<Rightarrow> Inr v)"

definition dict_set :: "dict \<Rightarrow> string \<Rightarrow> pyval \<Rightarrow> dict" where
  "dict_set d k v = AList.update k v d"


definition as_arr :: "pyval \<Rightarrow> error + matrix" where
  "as_arr v = (case v of PArr M \<Rightarrow> Inr M | _ \<Rightarrow> Inl TypeError)"

definition get_arr :: "dict \<Rightarrow> string \<Rightarrow> error + matrix" where
  "get_arr d k = thenE (dict_get d k) as_arr"

text \<open>
  \<^verbatim>\<open>np.zeros_like(v)\<close>: the zero array of the shape of \<open>v\<close>. Of a scalar or \<^verbatim>\<open>None\<close> it
  is the zero-dimensional zero, kept here as the integer 0; of a list of arrays it is the
  zero array of the stacked shape, kept as the list of its zero slices.
\<close>

definition zeros_like :: "pyval \<Rightarrow> pyval" where
  "zeros_like v =
     (case v of PNone \<Rightarrow> PInt 0 | PInt n \<Rightarrow> PInt 0
      | PArr M \<Rightarrow> PArr (zeros_like_m M) | PList Ms \<Rightarrow> PList (map zeros_like_m Ms)
      | PArr4 T \<Rightarrow> PArr4 (zeros_like_t T))"



text \<open>
  The external collaborators. An activation is its elementwise function and its
  elementwise local derivative; an optimizer maps its per-key cache, the current value,
  the gradient and the key to the new value and the new cache; a weight initializer maps
  a shape to a fresh array; the process-wide random generator is a stream of draws from
  [0, 1) read in order, a position into it being part of every state that samples.
\<close>

record activation =
  fn :: "real \<Rightarrow> real"
  grad :: "real \<Rightarrow> real"

definition act_fn_of :: "activation \<Rightarrow> matrix \<Rightarrow> matrix" where
  "act_fn_of a M = map (map (fn a)) M"

definition act_grad_of :: "activation \<Rightarrow> matrix \<Rightarrow> matrix" where
  "act_grad_of a M = map (map (grad a)) M"

definition Sigmoid :: activation where
  "Sigmoid = \<lparr> fn = (\<lambda>z. 1 / (1 + exp (- z))),
               grad = (\<lambda>z. (1 / (1 + exp (- z))) * (1 - 1 / (1 + exp (- z)))) \<rparr>"

definition Tanh :: activation where
  "Tanh = \<lparr> fn = tanh, grad = (\<lambda>z. 1 - (tanh z)\<^sup>2) \<rparr>"

definition Affine :: activation where
  "Affine = \<lparr> fn = (\<lambda>z. z), grad = (\<lambda>z. 1) \<rparr>"

definition ReLU :: activation where
  "ReLU = \<lparr> fn = (\<lambda>z. max 0 z), grad = (\<lambda>z. if z > 0 then 1 else 0) \<rparr>"

type_synonym optimizer_fn = "dict \<Rightarrow> pyval \<Rightarrow> pyval \<Rightarrow> string \<Rightarrow> pyval \<times> dict"

definition rand :: "(nat \<Rightarrow> real) \<Rightarrow> nat \<Rightarrow> nat \<Rightarrow> nat \<Rightarrow> matrix \<times> nat" where
  "rand rs pos r c = (mk_matrix r c (\<lambda>i j. rs (pos + i * c + j)), pos + r * c)"

text \<open>\<^verbatim>\<open>(np.random.rand(*P.shape) <= P).astype(float)\<close>\<close>

definition bernoulli :: "(nat \<Rightarrow> real) \<Rightarrow> nat \<Rightarrow> matrix \<Rightarrow> matrix \<times> nat" where
  "bernoulli rs pos P =
     (let (R, pos') = rand rs pos (nrows P) (ncols P)
      in (mk_matrix (nrows P) (ncols P) (\<lambda>i j. if R ! i ! j \<le> P ! i ! j then 1 else 0), pos'))"

section \<open>LayerBase\<close>

record layer =
  X :: pyval
  trainable :: bool
  optimizer :: optimizer_fn
  optimizer_cache :: dict
  gradients :: dict
  parameters :: dict
  derived_variables :: dict
  is_initialized :: bool

definition freeze :: "'a layer_scheme \<Rightarrow> 'a layer_scheme" where
  "freeze l = l\<lparr>trainable := False\<rparr>"

definition unfreeze :: "'a layer_scheme \<Rightarrow> 'a layer_scheme" where
  "unfreeze l = l\<lparr>trainable := True\<rparr>"

definition flush_gradients :: "'a layer_scheme \<Rightarrow> error + 'a layer_scheme" where
  "flush_gradients l =
     (if \<not> trainable l then Inl AssertionError
      else Inr (l\<lparr>X := PList [],
                  derived_variables := map (\<lambda>(k, v). (k, PNone)) (derived_variables l),
                  gradients := map (\<lambda>(k, v). (k, zeros_like v)) (gradients l)\<rparr>))"

text \<open>
  The loop of \<^verbatim>\<open>update\<close> over \<^verbatim>\<open>self.gradients.items()\<close>: the parameters and the
  optimizer's cache after the keys still to visit.
\<close>

fun update_loop :: "optimizer_fn \<Rightarrow> dict \<Rightarrow> dict \<Rightarrow> dict \<Rightarrow> dict \<times> dict" where
  "update_loop opt [] ps cache = (ps, cache)"
| "update_loop opt ((k, v) # gs) ps cache =
     (case map_of ps k of
        None \<Rightarrow> update_loop opt gs ps cache
      | Some p \<Rightarrow> (let (p', cache') = opt cache p v k
                  in update_loop opt gs (dict_set ps k p') cache'))"

definition update_params :: "'a layer_scheme \<Rightarrow> 'a layer_scheme" where
  "update_params l =
     (let (ps, cache) = update_loop (optimizer l) (gradients l) (parameters l)
                          (optimizer_cache l)
      in l\<lparr>parameters := ps, optimizer_cache := cache\<rparr>)"

text \<open>
  \<^verbatim>\<open>update\<close> ends with \<^verbatim>\<open>self.flush_gradients()\<close>, which is \<open>flush_gradients\<close> above in every
  class that does not override it.
\<close>

definition update :: "'a layer_scheme \<Rightarrow> error + 'a layer_scheme" where
  "update l =
     (if \<not> trainable l then Inl AssertionError
      else flush_gradients (update_params l))"

section \<open>RestrictedBoltzmannMachine\<close>

record RBM = layer +
  K :: int
  n_in :: "nat option"
  n_out :: nat
  act_fn_V :: activation
  act_fn_H :: activation
  init_weights :: "nat \<Rightarrow> nat \<Rightarrow> matrix"
  rng :: "nat \<Rightarrow> real"
  rng_pos :: nat

text \<open>\<^verbatim>\<open>np.zeros((1, self.n_in))\<close> raises a TypeError while \<^verbatim>\<open>n_in\<close> is \<^verbatim>\<open>None\<close>.\<close>

definition RBM_init_params :: "RBM \<Rightarrow> error + RBM" where
  "RBM_init_params l =
     (case n_in l of
        None \<Rightarrow> Inl TypeError
      | Some n \<Rightarrow>
          (let b_in = np_zeros 1 n;
               b_out = np_zeros 1 (n_out l);
               W = init_weights l n (n_out l)
           in Inr (l\<lparr>parameters := [(''W'', PArr W), (''b_in'', PArr b_in), (''b_out'', PArr b_out)],
                      gradients := [(''W'', PArr (zeros_like_m W)),
                                    (''b_in'', PArr (zeros_like_m b_in)),
                                    (''b_out'', PArr (zeros_like_m b_out))],
                      derived_variables := [(''V'', PNone), (''p_H'', PNone),
                                            (''p_V_prime'', PNone), (''p_H_prime'', PNone),
                                            (''positive_grad'', PNone), (''negative_grad'', PNone)],
                      is_initialized := True\<rparr>)))"

text \<open>
  The local variables of the CD-k loop of \<^verbatim>\<open>forward\<close>: \<^verbatim>\<open>H_prime\<close>, the pair
  \<^verbatim>\<open>p_V_prime\<close>, \<^verbatim>\<open>p_H_prime\<close> (unbound until the body has run once) and the position
  in the random stream.
\<close>

type_synonym gibbs_state = "matrix \<times> (matrix \<times> matrix) option \<times> nat"

text \<open>One pass through the body of \<^verbatim>\<open>for k in range(K)\<close>, at loop index \<open>k\<close>.\<close>

definition gibbs_step ::
  "RBM \<Rightarrow> matrix \<Rightarrow> matrix \<Rightarrow> matrix \<Rightarrow> nat \<Rightarrow> gibbs_state \<Rightarrow> error + gibbs_state" where
  "gibbs_step l W b_in b_out k s =
     (case s of (H_prime, probs, pos) \<Rightarrow>
        thenE (np_dot H_prime (np_T W)) (\<lambda>HW.
        thenE (np_add HW b_in) (\<lambda>Z_V_prime.
        let p_V_prime = act_fn_of (act_fn_V l) Z_V_prime;
            V_prime = p_V_prime
        in thenE (np_dot V_prime W) (\<lambda>VW.
           thenE (np_add VW b_out) (\<lambda>Z_H_prime.
           let p_H_prime = act_fn_of (act_fn_H l) Z_H_prime
           in (if int k \<noteq> K l - 1
               then (let (H', pos') = bernoulli (rng l) pos p_H_prime
                     in Inr (H', Some (p_V_prime, p_H_prime), pos'))
               else Inr (p_H_prime, Some (p_V_prime, p_H_prime), pos)))))))"

fun gibbs ::
  "RBM \<Rightarrow> matrix \<Rightarrow> matrix \<Rightarrow> matrix \<Rightarrow> nat list \<Rightarrow> gibbs_state \<Rightarrow> error + gibbs_state" where
  "gibbs l W b_in b_out [] s = Inr s"
| "gibbs l W b_in b_out (k # ks) s =
     (case gibbs_step l W b_in b_out k s of
        Inl e \<Rightarrow> Inl e
      | Inr s' \<Rightarrow> gibbs l W b_in b_out ks s')"

text \<open>
  \<^verbatim>\<open>forward(V, K)\<close>: the argument \<open>Kopt\<close> is \<^verbatim>\<open>None\<close> or the number of steps.
  \<^verbatim>\<open>range(K)\<close> is empty for \<open>K \<le> 0\<close>, and then \<^verbatim>\<open>p_V_prime\<close> is unbound after the loop.
\<close>

definition RBM_forward :: "RBM \<Rightarrow> matrix \<Rightarrow> int option \<Rightarrow> error + RBM" where
  "RBM_forward l0 V Kopt =
     thenE (if \<not> is_initialized l0 then RBM_init_params (l0\<lparr>n_in := Some (ncols V)\<rparr>)
            else Inr l0) (\<lambda>l.
     let K' = (case Kopt of None \<Rightarrow> K l | Some k \<Rightarrow> k)
     in thenE (get_arr (parameters l) ''W'') (\<lambda>W.
        thenE (get_arr (parameters l) ''b_in'') (\<lambda>b_in.
        thenE (get_arr (parameters l) ''b_out'') (\<lambda>b_out.
        thenE (np_dot V W) (\<lambda>VW.
        thenE (np_add VW b_out) (\<lambda>Z_H.
        let p_H = act_fn_of (act_fn_H l) Z_H;
            (H, pos) = bernoulli (rng l) (rng_pos l) p_H
        in thenE (np_dot (np_T V) p_H) (\<lambda>positive_grad.
           let dv = dict_set (dict_set (dict_set (derived_variables l)
                      ''V'' (PArr V)) ''p_H'' (PArr p_H)) ''positive_grad'' (PArr positive_grad)
           in thenE (gibbs l W b_in b_out [0..<nat K'] (H, None, pos)) (\<lambda>(H_prime, probs, pos').
              (case probs of
                 None \<Rightarrow> Inl UnboundLocalError
               | Some (p_V_prime, p_H_prime) \<Rightarrow>
                   thenE (np_dot (np_T p_V_prime) p_H_prime) (\<lambda>negative_grad.
                   Inr (l\<lparr>derived_variables :=
                            dict_set (dict_set (dict_set dv
                              ''p_V_prime'' (PArr p_V_prime)) ''p_H_prime'' (PArr p_H_prime))
                              ''negative_grad'' (PArr negative_grad),
                          rng_pos := pos'\<rparr>)))))))))))"

definition RBM_backward :: "RBM \<Rightarrow> error + RBM" where
  "RBM_backward l =
     thenE (dict_get (derived_variables l) ''V'') (\<lambda>V.
     thenE (dict_get (derived_variables l) ''p_H'') (\<lambda>p_H.
     thenE (dict_get (derived_variables l) ''p_V_prime'') (\<lambda>p_V_prime.
     thenE (dict_get (derived_variables l) ''p_H_prime'') (\<lambda>p_H_prime.
     thenE (dict_get (derived_variables l) ''positive_grad'') (\<lambda>positive_grad.
     thenE (dict_get (derived_variables l) ''negative_grad'') (\<lambda>negative_grad.
     thenE (thenE (as_arr V) (\<lambda>a. thenE (as_arr p_V_prime) (np_sub a))) (\<lambda>g_b_in.
     thenE (thenE (as_arr p_H) (\<lambda>a. thenE (as_arr p_H_prime) (np_sub a))) (\<lambda>g_b_out.
     thenE (thenE (as_arr positive_grad) (\<lambda>a. thenE (as_arr negative_grad) (np_sub a))) (\<lambda>g_W.
     Inr (l\<lparr>gradients :=
            dict_set (dict_set (dict_set (gradients l)
              ''b_in'' (PArr g_b_in)) ''b_out'' (PArr g_b_out)) ''W'' (PArr g_W)\<rparr>))))))))))"

text \<open>\<^verbatim>\<open>reconstruct(X, n_steps, return_prob)\<close> returns the reconstruction and the new state.\<close>

definition RBM_reconstruct :: "RBM \<Rightarrow> matrix \<Rightarrow> int \<Rightarrow> bool \<Rightarrow> error + (matrix \<times> RBM)" where
  "RBM_reconstruct l0 Xin n_steps return_prob =
     thenE (RBM_forward l0 Xin (Some n_steps)) (\<lambda>l1.
     thenE (dict_get (derived_variables l1) ''p_V_prime'') (\<lambda>p.
     thenE (flush_gradients l1) (\<lambda>l2.
     if return_prob then thenE (as_arr p) (\<lambda>p_V_prime. Inr (p_V_prime, l2))
     else thenE (as_arr p) (\<lambda>p_V_prime.
            let (V, pos) = bernoulli (rng l2) (rng_pos l2) p_V_prime
            in Inr (V, l2\<lparr>rng_pos := pos\<rparr>)))))"

section \<open>Concrete layers\<close>

text \<open>
  A Restricted Boltzmann Machine with one hidden unit, \<^verbatim>\<open>K = 1\<close>, before its first
  forward call; its initializer returns zero weights and every random draw is 1/4.
\<close>

definition rbm0 :: RBM where
  "rbm0 = \<lparr>X = PNone, trainable = True, optimizer = (\<lambda>c p g k. (p, c)), optimizer_cache = [],
     gradients = [], parameters = [(''W'', PNone), (''b_in'', PNone), (''b_out'', PNone)],
     derived_variables = [], is_initialized = False, K = 1, n_in = None, n_out = 1,
     act_fn_V = Sigmoid, act_fn_H = Sigmoid, init_weights = np_zeros,
     rng = (\<lambda>n. 1 / 4), rng_pos = 0\<rparr>"

text \<open>The same machine once \<^verbatim>\<open>_init_params\<close> has run on a one-column input.\<close>

definition rbm1 :: RBM where
  "rbm1 = rbm0\<lparr>parameters := [(''W'', PArr [[0]]), (''b_in'', PArr [[0]]), (''b_out'', PArr [[0]])],
     gradients := [(''W'', PArr [[0]]), (''b_in'', PArr [[0]]), (''b_out'', PArr [[0]])],
     derived_variables := [(''V'', PNone), (''p_H'', PNone), (''p_V_prime'', PNone),
       (''p_H_prime'', PNone), (''positive_grad'', PNone), (''negative_grad'', PNone)],
     is_initialized := True, n_in := Some 1\<rparr>"


section \<open>FullyConnected\<close>

record FullyConnected = layer +
  n_in :: "nat option"
  n_out :: nat
  act_fn :: activation
  init_weights :: "nat \<Rightarrow> nat \<Rightarrow> matrix"












section \<open>Python lists, counters and in-place addition\<close>

text \<open>\<^verbatim>\<open>xs[i]\<close>: a negative index counts from the end; out of range is an IndexError.\<close>

definition py_index :: "'a list \<Rightarrow> int \<Rightarrow> error + 'a" where
  "py_index xs i =
     (let n = int (length xs);
          j = (if i < 0 then n + i else i)
      in if 0 \<le> j \<and> j < n then Inr (xs ! nat j) else Inl IndexError)"

definition as_list :: "pyval \<Rightarrow> error + matrix list" where
  "as_list v = (case v of PList xs \<Rightarrow> Inr xs | _ \<Rightarrow> Inl TypeError)"

definition as_int :: "pyval \<Rightarrow> error + int" where
  "as_int v = (case v of PInt n \<Rightarrow> Inr n | _ \<Rightarrow> Inl TypeError)"

definition get_list :: "dict \<Rightarrow> string \<Rightarrow> error + matrix list" where
  "get_list d k = thenE (dict_get d k) as_list"

definition get_int :: "dict \<Rightarrow> string \<Rightarrow> error + int" where
  "get_int d k = thenE (dict_get d k) as_int"

text \<open>
  The array numpy makes of the right operand of \<^verbatim>\<open>A + v\<close>: an array is itself, an
  integer is a scalar, the empty list is an array of shape (0,), which broadcasts as one
  row without columns; \<^verbatim>\<open>None\<close> is not a number. A list of arrays or a four-dimensional
  array does not broadcast to the two dimensions of the cells.
\<close>

definition as_operand :: "pyval \<Rightarrow> error + matrix" where
  "as_operand v =
     (case v of
        PArr M \<Rightarrow> Inr M
      | PInt n \<Rightarrow> Inr [[real_of_int n]]
      | PList xs \<Rightarrow> (if xs = [] then Inr [[]] else Inl ValueError)
      | PArr4 T \<Rightarrow> Inl ValueError
      | PNone \<Rightarrow> Inl TypeError)"

text \<open>\<^verbatim>\<open>A += B\<close> on an array: the sum must have the shape of \<open>A\<close>.\<close>

definition np_iadd :: "matrix \<Rightarrow> matrix \<Rightarrow> error + matrix" where
  "np_iadd A B =
     thenE (np_add A B) (\<lambda>C.
     if nrows C = nrows A \<and> ncols C = ncols A then Inr C else Inl ValueError)"

text \<open>\<^verbatim>\<open>self.gradients[k] += B\<close>\<close>

definition grad_iadd :: "dict \<Rightarrow> string \<Rightarrow> matrix \<Rightarrow> error + dict" where
  "grad_iadd g k B =
     thenE (dict_get g k) (\<lambda>v.
     thenE (as_arr v) (\<lambda>A.
     thenE (np_iadd A B) (\<lambda>C. Inr (dict_set g k (PArr C)))))"

text \<open>\<^verbatim>\<open>np.hstack([A, B])\<close> of two 2-d arrays.\<close>

definition np_hstack :: "matrix \<Rightarrow> matrix \<Rightarrow> error + matrix" where
  "np_hstack A B = (if nrows A = nrows B then Inr (map2 (@) A B) else Inl ValueError)"

section \<open>RNNCell\<close>

record RNNCell = layer +
  n_in :: "nat option"
  n_out :: nat
  act_fn :: activation
  init_weights :: "nat \<Rightarrow> nat \<Rightarrow> matrix"

definition RNNCell_init_params :: "RNNCell \<Rightarrow> error + RNNCell" where
  "RNNCell_init_params l =
     (case n_in l of
        None \<Rightarrow> Inl TypeError
      | Some n \<Rightarrow>
          (let Wax = init_weights l n (n_out l);
               Waa = init_weights l (n_out l) (n_out l);
               ba = np_zeros (n_out l) 1;
               bx = np_zeros (n_out l) 1
           in Inr (l\<lparr>X := PList [],
                      parameters := [(''Waa'', PArr Waa), (''Wax'', PArr Wax),
                                     (''ba'', PArr ba), (''bx'', PArr bx)],
                      gradients := [(''Waa'', PArr (zeros_like_m Waa)),
                                    (''Wax'', PArr (zeros_like_m Wax)),
                                    (''ba'', PArr (zeros_like_m ba)),
                                    (''bx'', PArr (zeros_like_m bx))],
                      derived_variables := [(''A'', PList []), (''Z'', PList []),
                                            (''n_timesteps'', PInt 0), (''current_step'', PInt 0),
                                            (''dLdA_accumulator'', PNone)],
                      is_initialized := True\<rparr>)))"

definition RNNCell_forward :: "RNNCell \<Rightarrow> matrix \<Rightarrow> error + (matrix \<times> RNNCell)" where
  "RNNCell_forward l0 Xt =
     thenE (if \<not> is_initialized l0 then RNNCell_init_params (l0\<lparr>n_in := Some (ncols Xt)\<rparr>)
            else Inr l0) (\<lambda>l.
     thenE (get_int (derived_variables l) ''n_timesteps'') (\<lambda>n.
     let dv1 = dict_set (derived_variables l) ''n_timesteps'' (PInt (n + 1))
     in thenE (get_int dv1 ''current_step'') (\<lambda>c.
        let dv2 = dict_set dv1 ''current_step'' (PInt (c + 1))
        in thenE (get_arr (parameters l) ''ba'') (\<lambda>ba.
           thenE (get_arr (parameters l) ''bx'') (\<lambda>bx.
           thenE (get_arr (parameters l) ''Wax'') (\<lambda>Wax.
           thenE (get_arr (parameters l) ''Waa'') (\<lambda>Waa.
           thenE (get_list dv2 ''A'') (\<lambda>As0.
           let As = (if length As0 = 0 then As0 @ [np_zeros (nrows Xt) (n_out l)] else As0)
           in thenE (np_dot (last As) Waa) (\<lambda>AW.
              thenE (np_add AW (np_T ba)) (\<lambda>s1.
              thenE (np_dot Xt Wax) (\<lambda>XW.
              thenE (np_add s1 XW) (\<lambda>s2.
              thenE (np_add s2 (np_T bx)) (\<lambda>Zt.
              let At = act_fn_of (act_fn l) Zt
              in thenE (case X l of PList Xs \<Rightarrow> Inr Xs | _ \<Rightarrow> Inl AttributeError) (\<lambda>Xs.
                 thenE (get_list dv2 ''Z'') (\<lambda>Zs.
                 Inr (At, l\<lparr>X := PList (Xs @ [Xt]),
                             derived_variables :=
                               dict_set (dict_set dv2 ''Z'' (PList (Zs @ [Zt])))
                                 ''A'' (PList (As @ [At]))\<rparr>))))))))))))))))"

definition RNNCell_backward :: "RNNCell \<Rightarrow> matrix \<Rightarrow> error + (matrix \<times> RNNCell)" where
  "RNNCell_backward l dLdAt =
     (if \<not> trainable l then Inl AssertionError
      else thenE (get_int (derived_variables l) ''current_step'') (\<lambda>c.
           let dv1 = dict_set (derived_variables l) ''current_step'' (PInt (c - 1))
           in thenE (get_list dv1 ''Z'') (\<lambda>Zs.
              thenE (get_list dv1 ''A'') (\<lambda>As.
              let t = c - 1
              in thenE (dict_get dv1 ''dLdA_accumulator'') (\<lambda>acc.
                 thenE (if acc = PNone
                        then thenE (py_index As 0) (\<lambda>A0. Inr (zeros_like_m A0))
                        else as_operand acc) (\<lambda>dA_acc.
                 thenE (get_arr (parameters l) ''Wax'') (\<lambda>Wax.
                 thenE (get_arr (parameters l) ''Waa'') (\<lambda>Waa.
                 thenE (np_add dLdAt dA_acc) (\<lambda>dA.
                 thenE (py_index Zs t) (\<lambda>Zt.
                 thenE (np_mul (act_grad_of (act_fn l) Zt) dA) (\<lambda>dZ.
                 thenE (np_dot dZ (np_T Wax)) (\<lambda>dXt.
                 thenE (py_index As t) (\<lambda>At.
                 thenE (np_dot (np_T At) dZ) (\<lambda>gWaa.
                 thenE (grad_iadd (gradients l) ''Waa'' gWaa) (\<lambda>g1.
                 thenE (case X l of PList Xs \<Rightarrow> py_index Xs t | _ \<Rightarrow> Inl TypeError) (\<lambda>Xt.
                 thenE (np_dot (np_T Xt) dZ) (\<lambda>gWax.
                 thenE (grad_iadd g1 ''Wax'' gWax) (\<lambda>g2.
                 thenE (grad_iadd g2 ''ba'' (np_T (sum_axis0 dZ))) (\<lambda>g3.
                 thenE (grad_iadd g3 ''bx'' (np_T (sum_axis0 dZ))) (\<lambda>g4.
                 thenE (np_dot dZ (np_T Waa)) (\<lambda>acc'.
                 Inr (dXt, l\<lparr>gradients := g4,
                              derived_variables :=
                                dict_set dv1 ''dLdA_accumulator'' (PArr acc')\<rparr>
                     ))))))))))))))))))))))"

text \<open>
  The override of \<^verbatim>\<open>flush_gradients\<close>: every derived variable becomes the empty list,
  the two counters are reset, and every parameter gets a zero gradient.
\<close>

definition cell_flush_gradients :: "'a layer_scheme \<Rightarrow> error + 'a layer_scheme" where
  "cell_flush_gradients l =
     (if \<not> trainable l then Inl AssertionError
      else Inr (l\<lparr>X := PList [],
                  derived_variables :=
                    dict_set (dict_set (map (\<lambda>(k, v). (k, PList [])) (derived_variables l))
                      ''n_timesteps'' (PInt 0)) ''current_step'' (PInt 0),
                  gradients := fold (\<lambda>(k, v) g. dict_set g k (zeros_like v)) (parameters l)
                                 (gradients l)\<rparr>))"

definition RNNCell_flush_gradients :: "RNNCell \<Rightarrow> error + RNNCell" where
  "RNNCell_flush_gradients = cell_flush_gradients"

text \<open>
  A sequence of forward calls, one per input, and a sequence of backward calls, one per
  upstream gradient, in the order of the list; the results are returned in that order.
\<close>

fun RNNCell_forwards :: "RNNCell \<Rightarrow> matrix list \<Rightarrow> error + (matrix list \<times> RNNCell)" where
  "RNNCell_forwards l [] = Inr ([], l)"
| "RNNCell_forwards l (Xt # Xs) =
     (case RNNCell_forward l Xt of
        Inl e \<Rightarrow> Inl e
      | Inr (At, l') \<Rightarrow>
          (case RNNCell_forwards l' Xs of
             Inl e \<Rightarrow> Inl e
           | Inr (As, l'') \<Rightarrow> Inr (At # As, l'')))"

fun RNNCell_backwards :: "RNNCell \<Rightarrow> matrix list \<Rightarrow> error + (matrix list \<times> RNNCell)" where
  "RNNCell_backwards l [] = Inr ([], l)"
| "RNNCell_backwards l (d # ds) =
     (case RNNCell_backward l d of
        Inl e \<Rightarrow> Inl e
      | Inr (dX, l') \<Rightarrow>
          (case RNNCell_backwards l' ds of
             Inl e \<Rightarrow> Inl e
           | Inr (dXs, l'') \<Rightarrow> Inr (dX # dXs, l'')))"

definition RNNCell_calls ::
  "RNNCell \<Rightarrow> matrix list \<Rightarrow> matrix list \<Rightarrow> error + (matrix list \<times> RNNCell)" where
  "RNNCell_calls l Xs ds = thenE (RNNCell_forwards l Xs) (\<lambda>r. RNNCell_backwards (snd r) ds)"

text \<open>
  A cell with one hidden unit and the default \<^verbatim>\<open>Tanh\<close>, before its first forward call;
  its initializer returns the weights 1/2.
\<close>

definition rnn0 :: RNNCell where
  "rnn0 = \<lparr>X = PNone, trainable = True, optimizer = (\<lambda>c p g k. (p, c)), optimizer_cache = [],
     gradients = [],
     parameters = [(''Waa'', PNone), (''Wax'', PNone), (''ba'', PNone), (''bx'', PNone)],
     derived_variables = [], is_initialized = False, n_in = None, n_out = 1,
     act_fn = Tanh, init_weights = (\<lambda>r c. mk_matrix r c (\<lambda>i j. 1 / 2))\<rparr>"


section \<open>LSTMCell\<close>

record LSTMCell = layer +
  n_in :: "nat option"
  n_out :: nat
  act_fn :: activation
  gate_fn :: activation
  init_weights_gate :: "nat \<Rightarrow> nat \<Rightarrow> matrix"
  init_weights_act :: "nat \<Rightarrow> nat \<Rightarrow> matrix"

definition LSTMCell_init_params :: "LSTMCell \<Rightarrow> error + LSTMCell" where
  "LSTMCell_init_params l =
     (case n_in l of
        None \<Rightarrow> Inl TypeError
      | Some n \<Rightarrow>
          (let Wf = init_weights_gate l (n + n_out l) (n_out l);
               Wu = init_weights_gate l (n + n_out l) (n_out l);
               Wc = init_weights_act l (n + n_out l) (n_out l);
               Wo = init_weights_gate l (n + n_out l) (n_out l);
               bf = np_zeros 1 (n_out l);
               bu = np_zeros 1 (n_out l);
               bc = np_zeros 1 (n_out l);
               bo = np_zeros 1 (n_out l)
           in Inr (l\<lparr>X := PList [],
                      parameters := [(''Wf'', PArr Wf), (''Wu'', PArr Wu), (''Wc'', PArr Wc),
                                     (''Wo'', PArr Wo), (''bf'', PArr bf), (''bu'', PArr bu),
                                     (''bc'', PArr bc), (''bo'', PArr bo)],
                      gradients := [(''Wf'', PArr (zeros_like_m Wf)), (''Wu'', PArr (zeros_like_m Wu)),
                                    (''Wc'', PArr (zeros_like_m Wc)), (''Wo'', PArr (zeros_like_m Wo)),
                                    (''bf'', PArr (zeros_like_m bf)), (''bu'', PArr (zeros_like_m bu)),
                                    (''bc'', PArr (zeros_like_m bc)), (''bo'', PArr (zeros_like_m bo))],
                      derived_variables := [(''C'', PList []), (''A'', PList []), (''Gf'', PList []),
                                            (''Gu'', PList []), (''Go'', PList []), (''Gc'', PList []),
                                            (''Cc'', PList []), (''n_timesteps'', PInt 0),
                                            (''current_step'', PInt 0),
                                            (''dLdA_accumulator'', PNone),
                                            (''dLdC_accumulator'', PNone)],
                      is_initialized := True\<rparr>)))"

text \<open>\<^verbatim>\<open>_get_params\<close>: the eight parameters in the order Wf, Wu, Wc, Wo, bf, bu, bc, bo.\<close>

definition LSTMCell_get_params :: "LSTMCell \<Rightarrow> error + pyval list" where
  "LSTMCell_get_params l =
     thenE (dict_get (parameters l) ''Wf'') (\<lambda>Wf.
     thenE (dict_get (parameters l) ''Wu'') (\<lambda>Wu.
     thenE (dict_get (parameters l) ''Wc'') (\<lambda>Wc.
     thenE (dict_get (parameters l) ''Wo'') (\<lambda>Wo.
     thenE (dict_get (parameters l) ''bf'') (\<lambda>bf.
     thenE (dict_get (parameters l) ''bu'') (\<lambda>bu.
     thenE (dict_get (parameters l) ''bc'') (\<lambda>bc.
     thenE (dict_get (parameters l) ''bo'') (\<lambda>bo.
     Inr [Wf, Wu, Wc, Wo, bf, bu, bc, bo]))))))))"

text \<open>\<^verbatim>\<open>fn(np.dot(Zt, W) + b)\<close>, and the argument \<^verbatim>\<open>np.dot(Zt, W) + b\<close> on its own.\<close>

definition affine :: "matrix \<Rightarrow> pyval \<Rightarrow> pyval \<Rightarrow> error + matrix" where
  "affine Zt W b =
     thenE (as_arr W) (\<lambda>Wm.
     thenE (np_dot Zt Wm) (\<lambda>ZW.
     thenE (as_arr b) (\<lambda>bm. np_add ZW bm)))"

text \<open>\<^verbatim>\<open>self.derived_variables[k].append(M)\<close>\<close>

definition dv_append :: "dict \<Rightarrow> string \<Rightarrow> matrix \<Rightarrow> error + dict" where
  "dv_append d k M = thenE (get_list d k) (\<lambda>xs. Inr (dict_set d k (PList (xs @ [M]))))"

text \<open>\<^verbatim>\<open>forward(Xt)\<close> returns the pair \<^verbatim>\<open>At, Ct\<close>.\<close>

definition LSTMCell_forward ::
  "LSTMCell \<Rightarrow> matrix \<Rightarrow> error + ((matrix \<times> matrix) \<times> LSTMCell)" where
  "LSTMCell_forward l0 Xt =
     thenE (if \<not> is_initialized l0 then LSTMCell_init_params (l0\<lparr>n_in := Some (ncols Xt)\<rparr>)
            else Inr l0) (\<lambda>l.
     thenE (LSTMCell_get_params l) (\<lambda>ps.
     let Wf = ps ! 0; Wu = ps ! 1; Wc = ps ! 2; Wo = ps ! 3;
         bf = ps ! 4; bu = ps ! 5; bc = ps ! 6; bo = ps ! 7
     in thenE (get_int (derived_variables l) ''n_timesteps'') (\<lambda>n.
        let dv1 = dict_set (derived_variables l) ''n_timesteps'' (PInt (n + 1))
        in thenE (get_int dv1 ''current_step'') (\<lambda>c.
           let dv2 = dict_set dv1 ''current_step'' (PInt (c + 1))
           in thenE (get_list dv2 ''A'') (\<lambda>As0.
              thenE (if length As0 = 0
                     then thenE (dv_append dv2 ''A'' (np_zeros (nrows Xt) (n_out l))) (\<lambda>d.
                          dv_append d ''C'' (np_zeros (nrows Xt) (n_out l)))
                     else Inr dv2) (\<lambda>dv3.
              thenE (get_list dv3 ''A'') (\<lambda>As.
              thenE (py_index As (- 1)) (\<lambda>A_prev.
              thenE (get_list dv3 ''C'') (\<lambda>Cs.
              thenE (py_index Cs (- 1)) (\<lambda>C_prev.
              thenE (np_hstack A_prev Xt) (\<lambda>Zt.
              thenE (affine Zt Wf bf) (\<lambda>zf.
              thenE (affine Zt Wu bu) (\<lambda>zu.
              thenE (affine Zt Wo bo) (\<lambda>zo.
              thenE (affine Zt Wc bc) (\<lambda>zc.
              let Gft = act_fn_of (gate_fn l) zf;
                  Gut = act_fn_of (gate_fn l) zu;
                  Got = act_fn_of (gate_fn l) zo;
                  Cct = act_fn_of (act_fn l) zc
              in thenE (np_mul Gft C_prev) (\<lambda>fc.
                 thenE (np_mul Gut Cct) (\<lambda>uc.
                 thenE (np_add fc uc) (\<lambda>Ct.
                 thenE (np_mul Got (act_fn_of (act_fn l) Ct)) (\<lambda>At.
                 thenE (case X l of PList Xs \<Rightarrow> Inr Xs | _ \<Rightarrow> Inl AttributeError) (\<lambda>Xs.
                 thenE (dv_append dv3 ''A'' At) (\<lambda>d1.
                 thenE (dv_append d1 ''C'' Ct) (\<lambda>d2.
                 thenE (dv_append d2 ''Gf'' Gft) (\<lambda>d3.
                 thenE (dv_append d3 ''Gu'' Gut) (\<lambda>d4.
                 thenE (dv_append d4 ''Go'' Got) (\<lambda>d5.
                 thenE (dv_append d5 ''Cc'' Cct) (\<lambda>d6.
                 Inr ((At, Ct), l\<lparr>X := PList (Xs @ [Xt]), derived_variables := d6\<rparr>)
                 ))))))))))))))))))))))))))"

text \<open>\<^verbatim>\<open>self.derived_variables[k][t]\<close>\<close>

definition dv_at :: "dict \<Rightarrow> string \<Rightarrow> int \<Rightarrow> error + matrix" where
  "dv_at d k t = thenE (get_list d k) (\<lambda>xs. py_index xs t)"

definition LSTMCell_backward :: "LSTMCell \<Rightarrow> matrix \<Rightarrow> error + (matrix \<times> LSTMCell)" where
  "LSTMCell_backward l dLdAt =
     (if \<not> trainable l then Inl AssertionError
      else
     thenE (LSTMCell_get_params l) (\<lambda>ps.
     let Wf = ps ! 0; Wu = ps ! 1; Wc = ps ! 2; Wo = ps ! 3;
         bf = ps ! 4; bu = ps ! 5; bc = ps ! 6; bo = ps ! 7
     in thenE (get_int (derived_variables l) ''current_step'') (\<lambda>c.
        let dv = dict_set (derived_variables l) ''current_step'' (PInt (c - 1));
            t = c - 1
        in thenE (dv_at dv ''Go'' t) (\<lambda>Got.
           thenE (dv_at dv ''Gf'' t) (\<lambda>Gft.
           thenE (dv_at dv ''Gu'' t) (\<lambda>Gut.
           thenE (dv_at dv ''Cc'' t) (\<lambda>Cct.
           thenE (dv_at dv ''A'' (t + 1)) (\<lambda>At.
           thenE (dv_at dv ''C'' (t + 1)) (\<lambda>Ct.
           thenE (dv_at dv ''C'' t) (\<lambda>C_prev.
           thenE (dv_at dv ''A'' t) (\<lambda>A_prev.
           thenE (case X l of PList Xs \<Rightarrow> py_index Xs t | _ \<Rightarrow> Inl TypeError) (\<lambda>Xt.
           thenE (np_hstack A_prev Xt) (\<lambda>Zt.
           thenE (dict_get dv ''dLdA_accumulator'') (\<lambda>a.
           thenE (dict_get dv ''dLdC_accumulator'') (\<lambda>ca.
           thenE (if a = PNone then Inr (zeros_like_m At) else as_operand a) (\<lambda>dA_acc.
           thenE (if ca = PNone then Inr (zeros_like_m Ct) else as_operand ca) (\<lambda>dC_acc.
           thenE (np_add dLdAt dA_acc) (\<lambda>dA.
           thenE (np_mul dA Got) (\<lambda>dAGo.
           thenE (np_mul dAGo (act_grad_of (act_fn l) Ct)) (\<lambda>dAGog.
           thenE (np_add dC_acc dAGog) (\<lambda>dC.
           thenE (affine Zt Wo bo) (\<lambda>Go'.
           thenE (affine Zt Wf bo) (\<lambda>Gf'.
           thenE (affine Zt Wu bo) (\<lambda>Gu'.
           thenE (affine Zt Wc bc) (\<lambda>Gc'.
           thenE (thenE (np_mul dA (act_fn_of (act_fn l) Ct)) (\<lambda>m.
                    np_mul m (act_grad_of (gate_fn l) Go'))) (\<lambda>dGot.
           thenE (thenE (np_mul dC Gut) (\<lambda>m.
                    np_mul m (act_grad_of (act_fn l) Gc'))) (\<lambda>dCct.
           thenE (thenE (np_mul dC Cct) (\<lambda>m.
                    np_mul m (act_grad_of (gate_fn l) Gu'))) (\<lambda>dGut.
           thenE (thenE (np_mul dC C_prev) (\<lambda>m.
                    np_mul m (act_grad_of (gate_fn l) Gf'))) (\<lambda>dGft.
           thenE (thenE (as_arr Wf) (\<lambda>W. np_dot dGft (np_T W))) (\<lambda>z1.
           thenE (thenE (as_arr Wu) (\<lambda>W. np_dot dGut (np_T W))) (\<lambda>z2.
           thenE (thenE (as_arr Wc) (\<lambda>W. np_dot dCct (np_T W))) (\<lambda>z3.
           thenE (thenE (as_arr Wo) (\<lambda>W. np_dot dGot (np_T W))) (\<lambda>z4.
           thenE (thenE (np_add z1 z2) (\<lambda>s. thenE (np_add s z3) (\<lambda>s. np_add s z4))) (\<lambda>dZ.
           let dXt = map (drop (n_out l)) dZ
           in thenE (thenE (np_dot (np_T Zt) dCct) (grad_iadd (gradients l) ''Wc'')) (\<lambda>g1.
              thenE (thenE (np_dot (np_T Zt) dGut) (grad_iadd g1 ''Wu'')) (\<lambda>g2.
              thenE (thenE (np_dot (np_T Zt) dGft) (grad_iadd g2 ''Wf'')) (\<lambda>g3.
              thenE (thenE (np_dot (np_T Zt) dGot) (grad_iadd g3 ''Wo'')) (\<lambda>g4.
              thenE (grad_iadd g4 ''bo'' (sum_axis0 dGot)) (\<lambda>g5.
              thenE (grad_iadd g5 ''bu'' (sum_axis0 dGut)) (\<lambda>g6.
              thenE (grad_iadd g6 ''bf'' (sum_axis0 dGft)) (\<lambda>g7.
              thenE (grad_iadd g7 ''bc'' (sum_axis0 dCct)) (\<lambda>g8.
              thenE (np_mul Gft dC) (\<lambda>dC_acc'.
              Inr (dXt, l\<lparr>gradients := g8,
                           derived_variables :=
                             dict_set (dict_set dv
                               ''dLdA_accumulator'' (PArr (map (take (n_out l)) dZ)))
                               ''dLdC_accumulator'' (PArr dC_acc')\<rparr>
                  ))))))))))))))))))))))))))))))))))))))))))))"

definition LSTMCell_flush_gradients :: "LSTMCell \<Rightarrow> error + LSTMCell" where
  "LSTMCell_flush_gradients = cell_flush_gradients"

fun LSTMCell_forwards ::
  "LSTMCell \<Rightarrow> matrix list \<Rightarrow> error + ((matrix \<times> matrix) list \<times> LSTMCell)" where
  "LSTMCell_forwards l [] = Inr ([], l)"
| "LSTMCell_forwards l (Xt # Xs) =
     (case LSTMCell_forward l Xt of
        Inl e \<Rightarrow> Inl e
      | Inr (AC, l') \<Rightarrow>
          (case LSTMCell_forwards l' Xs of
             Inl e \<Rightarrow> Inl e
           | Inr (ACs, l'') \<Rightarrow> Inr (AC # ACs, l'')))"

fun LSTMCell_backwards :: "LSTMCell \<Rightarrow> matrix list \<Rightarrow> error + (matrix list \<times> LSTMCell)" where
  "LSTMCell_backwards l [] = Inr ([], l)"
| "LSTMCell_backwards l (d # ds) =
     (case LSTMCell_backward l d of
        Inl e \<Rightarrow> Inl e
      | Inr (dX, l') \<Rightarrow>
          (case LSTMCell_backwards l' ds of
             Inl e \<Rightarrow> Inl e
           | Inr (dXs, l'') \<Rightarrow> Inr (dX # dXs, l'')))"

definition LSTMCell_calls ::
  "LSTMCell \<Rightarrow> matrix list \<Rightarrow> matrix list \<Rightarrow> error + (matrix list \<times> LSTMCell)" where
  "LSTMCell_calls l Xs ds = thenE (LSTMCell_forwards l Xs) (\<lambda>r. LSTMCell_backwards (snd r) ds)"

text \<open>
  A cell with one hidden unit and one input, the defaults \<^verbatim>\<open>Tanh\<close> and \<^verbatim>\<open>Sigmoid\<close>, before
  its first forward call; its initializers return the weights 1/2.
\<close>

definition lstm0 :: LSTMCell where
  "lstm0 = \<lparr>X = PNone, trainable = True, optimizer = (\<lambda>c p g k. (p, c)), optimizer_cache = [],
     gradients = [],
     parameters = [(''Wf'', PNone), (''Wu'', PNone), (''Wc'', PNone), (''Wo'', PNone),
                   (''bf'', PNone), (''bu'', PNone), (''bc'', PNone), (''bo'', PNone)],
     derived_variables = [], is_initialized = False, n_in = None, n_out = 1,
     act_fn = Tanh, gate_fn = Sigmoid,
     init_weights_gate = (\<lambda>r c. mk_matrix r c (\<lambda>i j. 1 / 2)),
     init_weights_act = (\<lambda>r c. mk_matrix r c (\<lambda>i j. 1 / 2))\<rparr>"

text \<open>
  An initialized cell with one input and one hidden unit, the identity as activation and
  \<^verbatim>\<open>ReLU\<close> as gate function, all weights 1/2, biases \<open>bf = 0\<close>, \<open>bc = 1\<close>, \<open>bo = 1\<close> and
  the update-gate bias \<open>bu = b\<close>, at the start of a sequence.
\<close>

definition lstm_bu :: "real \<Rightarrow> LSTMCell" where
  "lstm_bu b = \<lparr>X = PList [], trainable = True, optimizer = (\<lambda>c p g k. (p, c)),
     optimizer_cache = [],
     gradients = [(''Wf'', PArr [[0], [0]]), (''Wu'', PArr [[0], [0]]), (''Wc'', PArr [[0], [0]]),
                  (''Wo'', PArr [[0], [0]]), (''bf'', PArr [[0]]), (''bu'', PArr [[0]]),
                  (''bc'', PArr [[0]]), (''bo'', PArr [[0]])],
     parameters = [(''Wf'', PArr [[1 / 2], [1 / 2]]), (''Wu'', PArr [[1 / 2], [1 / 2]]),
                   (''Wc'', PArr [[1 / 2], [1 / 2]]), (''Wo'', PArr [[1 / 2], [1 / 2]]),
                   (''bf'', PArr [[0]]), (''bu'', PArr [[b]]),
                   (''bc'', PArr [[1]]), (''bo'', PArr [[1]])],
     derived_variables = [(''C'', PList []), (''A'', PList []), (''Gf'', PList []),
                          (''Gu'', PList []), (''Go'', PList []), (''Gc'', PList []),
                          (''Cc'', PList []), (''n_timesteps'', PInt 0),
                          (''current_step'', PInt 0),
                          (''dLdA_accumulator'', PNone), (''dLdC_accumulator'', PNone)],
     is_initialized = True, n_in = Some 1, n_out = 1,
     act_fn = Affine, gate_fn = ReLU,
     init_weights_gate = (\<lambda>r c. mk_matrix r c (\<lambda>i j. 1 / 2)),
     init_weights_act = (\<lambda>r c. mk_matrix r c (\<lambda>i j. 1 / 2))\<rparr>"

text \<open>
  The loss of that cell on the one-step sequence \<open>[[0]]\<close> as a function of \<open>bu\<close>: the
  hidden state \<open>A\<^sub>1\<close> itself, whose gradient with respect to the output is \<open>[[1]]\<close>.
\<close>

definition lstm_loss :: "real \<Rightarrow> real" where
  "lstm_loss b =
     (case LSTMCell_forward (lstm_bu b) [[0]] of
        Inl e \<Rightarrow> 0
      | Inr r \<Rightarrow> fst (fst r) ! 0 ! 0)"


section \<open>Padding\<close>

text \<open>
  The padding argument of the convolution and pooling layers: one integer for all four
  sides, the four amounts (rows before, rows after, columns before, columns after), or
  \<^verbatim>\<open>'same'\<close>.
\<close>

datatype pad_spec = PadInt nat | PadQuad nat nat nat nat | PadSame

text \<open>
  Modelled from the spec: \<^verbatim>\<open>utils.pad2D\<close> and \<^verbatim>\<open>utils.calc_pad_dims_2D\<close> are not among
  the sources. The effective kernel extent after dilation is
  \<open>kernel_size * (dilation + 1) - dilation\<close>; an integer is applied to every side; \<^verbatim>\<open>'same'\<close>
  makes the output length equal the input length, the excess padding on the trailing
  side; the padded volume is the input inside a frame of zeros.
\<close>

definition effective_kernel :: "nat \<Rightarrow> nat \<Rightarrow> nat" where
  "effective_kernel k d = k * (d + 1) - d"

definition same_pad :: "nat \<Rightarrow> nat \<Rightarrow> nat \<Rightarrow> nat \<Rightarrow> nat \<times> nat" where
  "same_pad n k s d =
     (let total = nat (int s * (int n - 1) + int (effective_kernel k d) - int n)
      in (total div 2, total - total div 2))"

definition pad_dims :: "pad_spec \<Rightarrow> nat \<Rightarrow> nat \<Rightarrow> nat \<times> nat \<Rightarrow> nat \<Rightarrow> nat \<Rightarrow> nat \<times> nat \<times> nat \<times> nat" where
  "pad_dims p in_rows in_cols kernel_shape s d =
     (case p of
        PadInt a \<Rightarrow> (a, a, a, a)
      | PadQuad a b c e \<Rightarrow> (a, b, c, e)
      | PadSame \<Rightarrow>
          (let (pr1, pr2) = same_pad in_rows (fst kernel_shape) s d;
               (pc1, pc2) = same_pad in_cols (snd kernel_shape) s d
           in (pr1, pr2, pc1, pc2)))"

definition zero_pad :: "tensor4 \<Rightarrow> nat \<times> nat \<times> nat \<times> nat \<Rightarrow> tensor4" where
  "zero_pad T p =
     (case p of (pr1, pr2, pc1, pc2) \<Rightarrow>
        mk_tensor4 (dim1 T) (dim2 T + pr1 + pr2) (dim3 T + pc1 + pc2) (dim4 T)
          (\<lambda>m i j ch. if pr1 \<le> i \<and> i < pr1 + dim2 T \<and> pc1 \<le> j \<and> j < pc1 + dim3 T
                       then T ! m ! (i - pr1) ! (j - pc1) ! ch else 0))"

definition pad2D ::
  "tensor4 \<Rightarrow> pad_spec \<Rightarrow> nat \<times> nat \<Rightarrow> nat \<Rightarrow> nat \<Rightarrow> tensor4 \<times> (nat \<times> nat \<times> nat \<times> nat)" where
  "pad2D T p kernel_shape s d =
     (let q = pad_dims p (dim2 T) (dim3 T) kernel_shape s d in (zero_pad T q, q))"

text \<open>
  Cropping the padding frame off again: \<^verbatim>\<open>dX[:, pr1:pr2', pc1:pc2', :]\<close> where \<^verbatim>\<open>pr2'\<close> is
  \<^verbatim>\<open>None\<close> for \<open>pr2 = 0\<close> and \<open>-pr2\<close> otherwise.
\<close>

definition crop :: "tensor4 \<Rightarrow> nat \<times> nat \<times> nat \<times> nat \<Rightarrow> tensor4" where
  "crop T p =
     (case p of (pr1, pr2, pc1, pc2) \<Rightarrow>
        map (\<lambda>ex. map (\<lambda>row. take (length row - pc2 - pc1) (drop pc1 row))
                     (take (length ex - pr2 - pr1) (drop pr1 ex))) T)"

section \<open>Loops that may raise, windows and slices\<close>

fun foldE :: "('a \<Rightarrow> 's \<Rightarrow> error + 's) \<Rightarrow> 'a list \<Rightarrow> 's \<Rightarrow> error + 's" where
  "foldE f [] s = Inr s"
| "foldE f (x # xs) s = (case f x s of Inl e \<Rightarrow> Inl e | Inr s' \<Rightarrow> foldE f xs s')"

text \<open>The index tuples of four nested \<^verbatim>\<open>for ... in range(...)\<close> loops, in loop order.\<close>

definition indices4 :: "nat \<Rightarrow> nat \<Rightarrow> nat \<Rightarrow> nat \<Rightarrow> (nat \<times> nat \<times> nat \<times> nat) list" where
  "indices4 n r c k =
     concat (map (\<lambda>m. concat (map (\<lambda>i. concat (map (\<lambda>j. map (\<lambda>ch. (m, i, j, ch)) [0..<k])
       [0..<c])) [0..<r])) [0..<n])"

text \<open>\<^verbatim>\<open>T[m, i, j, c]\<close> with indices that are not negative.\<close>

definition index4 :: "tensor4 \<Rightarrow> nat \<Rightarrow> nat \<Rightarrow> nat \<Rightarrow> nat \<Rightarrow> error + real" where
  "index4 T m i j c =
     (if m < dim1 T \<and> i < dim2 T \<and> j < dim3 T \<and> c < dim4 T then Inr (T ! m ! i ! j ! c)
      else Inl IndexError)"

text \<open>
  \<^verbatim>\<open>T[m, i0:i1, j0:j1, c]\<close>: the slices are clipped to the array, the two plain indices
  must be in range.
\<close>

definition window :: "tensor4 \<Rightarrow> nat \<Rightarrow> nat \<Rightarrow> nat \<Rightarrow> nat \<Rightarrow> nat \<Rightarrow> nat \<Rightarrow> error + matrix" where
  "window T m i0 i1 j0 j1 c =
     (if m < dim1 T \<and> c < dim4 T
      then Inr (map (\<lambda>row. map (\<lambda>px. px ! c) (take (j1 - j0) (drop j0 row)))
                 (take (i1 - i0) (drop i0 (T ! m))))
      else Inl IndexError)"

text \<open>
  \<^verbatim>\<open>T[m, i0:i1, j0:j1, c] += U\<close>: \<open>U\<close> is broadcast to the shape of the clipped slice, each of
  its extents being that of the slice or 1.
\<close>

definition slice_iadd ::
  "tensor4 \<Rightarrow> nat \<Rightarrow> nat \<Rightarrow> nat \<Rightarrow> nat \<Rightarrow> nat \<Rightarrow> nat \<Rightarrow> matrix \<Rightarrow> error + tensor4" where
  "slice_iadd T m i0 i1 j0 j1 c U =
     (if m < dim1 T \<and> c < dim4 T
      then (let sr = min i1 (dim2 T) - min i0 (dim2 T);
                sc = min j1 (dim3 T) - min j0 (dim3 T)
            in if (nrows U = sr \<or> nrows U = 1) \<and> (ncols U = sc \<or> ncols U = 1)
               then Inr (mk_tensor4 (dim1 T) (dim2 T) (dim3 T) (dim4 T)
                      (\<lambda>m' r q ch. T ! m' ! r ! q ! ch +
                         (if m' = m \<and> ch = c \<and> i0 \<le> r \<and> r < i0 + sr \<and> j0 \<le> q \<and> q < j0 + sc
                          then bget U (r - i0) (q - j0) else 0)))
               else Inl ValueError)
      else Inl IndexError)"

text \<open>\<^verbatim>\<open>np.max\<close> and \<^verbatim>\<open>np.mean\<close> of a window; the maximum of an empty array is an error.\<close>

definition np_max :: "matrix \<Rightarrow> error + real" where
  "np_max M = (case concat M of [] \<Rightarrow> Inl ValueError | v # vs \<Rightarrow> Inr (fold max vs v))"

definition np_mean :: "matrix \<Rightarrow> real" where
  "np_mean M = sum_list (concat M) / real (length (concat M))"

text \<open>\<^verbatim>\<open>np.argwhere(xi == v)[0]\<close>: the first position, in row-major order, holding \<open>v\<close>.\<close>

definition first_argwhere :: "matrix \<Rightarrow> real \<Rightarrow> error + (nat \<times> nat)" where
  "first_argwhere xi v =
     (case filter (\<lambda>(a, b). xi ! a ! b = v)
             (concat (map (\<lambda>a. map (\<lambda>b. (a, b)) [0..<ncols xi]) [0..<nrows xi])) of
        [] \<Rightarrow> Inl IndexError
      | p # _ \<Rightarrow> Inr p)"

section \<open>Pool2D\<close>

record Pool2D = layer +
  pad :: pad_spec
  mode :: string
  in_ch :: "nat option"
  out_ch :: "nat option"
  stride :: nat
  kernel_shape :: "nat \<times> nat"

definition Pool2D_init_params :: "Pool2D \<Rightarrow> Pool2D" where
  "Pool2D_init_params l =
     l\<lparr>derived_variables := [(''out_rows'', PNone), (''out_cols'', PNone), (''masks'', PList [])],
       is_initialized := True\<rparr>"

text \<open>\<^verbatim>\<open>np.floor(1 + (n + p1 + p2 - f) / s).astype(int)\<close>\<close>

definition out_dim :: "nat \<Rightarrow> nat \<Rightarrow> nat \<Rightarrow> nat \<Rightarrow> nat \<Rightarrow> error + int" where
  "out_dim n p1 p2 f s =
     (if s = 0 then Inl ZeroDivisionError
      else Inr (1 + (int n + int p1 + int p2 - int f) div int s))"

definition Pool2D_forward :: "Pool2D \<Rightarrow> tensor4 \<Rightarrow> error + (tensor4 \<times> Pool2D)" where
  "Pool2D_forward l0 Xin =
     (let l1 = (if \<not> is_initialized l0
                then Pool2D_init_params (l0\<lparr>in_ch := Some (dim4 Xin), out_ch := Some (dim4 Xin)\<rparr>)
                else l0);
          l = l1\<lparr>X := PArr4 Xin\<rparr>;
          (fr, fc) = kernel_shape l;
          s = stride l;
          (X_pad, (pr1, pr2, pc1, pc2)) = pad2D Xin (pad l) (kernel_shape l) s 0
      in thenE (out_dim (dim2 Xin) pr1 pr2 fr s) (\<lambda>out_rows.
         thenE (out_dim (dim3 Xin) pc1 pc2 fc s) (\<lambda>out_cols.
         let dv = dict_set (dict_set (derived_variables l) ''out_rows'' (PInt out_rows))
                    ''out_cols'' (PInt out_cols)
         in thenE (case out_ch l of None \<Rightarrow> Inl TypeError | Some k \<Rightarrow> Inr k) (\<lambda>k.
            if out_rows < 0 \<or> out_cols < 0 then Inl ValueError
            else thenE (foldE (\<lambda>(m, i, j, c) Y.
                          thenE (window X_pad m (i * s) (i * s + fr) (j * s) (j * s + fc) c) (\<lambda>xi.
                          thenE (if mode l = ''max'' then np_max xi
                                 else if mode l = ''average'' then Inr (np_mean xi)
                                 else Inl UnboundLocalError) (\<lambda>v.
                          Inr (Y[m := (Y ! m)[i := (Y ! m ! i)[j := (Y ! m ! i ! j)[c := v]]]]))))
                        (indices4 (dim1 Xin) (nat out_rows) (nat out_cols) k)
                        (mk_tensor4 (dim1 Xin) (nat out_rows) (nat out_cols) k (\<lambda>m i j c. 0)))
                 (\<lambda>Y. Inr (Y, l\<lparr>derived_variables := dv\<rparr>))))))"

text \<open>
  One pass through the body of the four loops of \<^verbatim>\<open>backward\<close>, at the indices
  \<open>(m, i, j, c)\<close>: \<open>Xs\<close> is \<^verbatim>\<open>self.X\<close>, \<open>dX\<close> has the shape of the padded input.
\<close>

definition Pool2D_backward_step ::
  "Pool2D \<Rightarrow> tensor4 \<Rightarrow> tensor4 \<Rightarrow> nat \<times> nat \<times> nat \<times> nat \<Rightarrow> tensor4 \<Rightarrow> error + tensor4" where
  "Pool2D_backward_step l Xs dLdY idx dX =
     (case idx of (m, i, j, c) \<Rightarrow>
       (let (fr, fc) = kernel_shape l;
            s = stride l;
            i0 = i * s; i1 = i * s + fr;
            j0 = j * s; j1 = j * s + fc
        in thenE (index4 dLdY m i j c) (\<lambda>dy.
           if mode l = ''max''
           then thenE (window Xs m i0 i1 j0 j1 c) (\<lambda>xi.
                thenE (np_max xi) (\<lambda>mx.
                thenE (first_argwhere xi mx) (\<lambda>(x, y).
                let mask = mk_matrix (nrows xi) (ncols xi) (\<lambda>a b. if a = x \<and> b = y then 1 else 0)
                in slice_iadd dX m i0 i1 j0 j1 c (map (map (\<lambda>v. v * dy)) mask))))
           else if mode l = ''average''
           then slice_iadd dX m i0 i1 j0 j1 c
                  (mk_matrix fr fc (\<lambda>a b. 1 * dy / real (fr * fc)))
           else Inr dX)))"

definition Pool2D_backward :: "Pool2D \<Rightarrow> tensor4 \<Rightarrow> error + tensor4" where
  "Pool2D_backward l dLdY =
     (if \<not> trainable l then Inl AssertionError
      else thenE (case X l of PArr4 T \<Rightarrow> Inr T | _ \<Rightarrow> Inl AttributeError) (\<lambda>Xs.
           let (X_pad, p) = pad2D Xs (pad l) (kernel_shape l) (stride l) 0
           in thenE (get_int (derived_variables l) ''out_rows'') (\<lambda>out_rows.
              thenE (get_int (derived_variables l) ''out_cols'') (\<lambda>out_cols.
              thenE (case out_ch l of None \<Rightarrow> Inl TypeError | Some k \<Rightarrow> Inr k) (\<lambda>k.
              thenE (foldE (Pool2D_backward_step l Xs dLdY)
                       (indices4 (dim1 Xs) (nat out_rows) (nat out_cols) k)
                       (zeros_like_t X_pad)) (\<lambda>dX.
              Inr (crop dX p)))))))"

text \<open>
  A max-pooling layer with a 2 x 2 kernel, stride 1 and one row and one column of padding
  before the input (none after), before its first forward call.
\<close>

definition pool0 :: Pool2D where
  "pool0 = \<lparr>X = PNone, trainable = True, optimizer = (\<lambda>c p g k. (p, c)), optimizer_cache = [],
     gradients = [], parameters = [], derived_variables = [], is_initialized = False,
     pad = PadQuad 1 0 1 0, mode = ''max'', in_ch = None, out_ch = None, stride = 1,
     kernel_shape = (2, 2)\<rparr>"

text \<open>\<^verbatim>\<open>forward(Xin)\<close> and then \<^verbatim>\<open>backward(dLdY)\<close>.\<close>

definition Pool2D_forward_backward :: "Pool2D \<Rightarrow> tensor4 \<Rightarrow> tensor4 \<Rightarrow> error + tensor4" where
  "Pool2D_forward_backward l Xin dLdY =
     thenE (Pool2D_forward l Xin) (\<lambda>r. Pool2D_backward (snd r) dLdY)"


section \<open>Four-dimensional numpy operations\<close>

type_synonym tensor3 = "real list list list"







text \<open>\<^verbatim>\<open>.reshape(a, b, c, e)\<close>\<close>

definition reshape4 :: "nat \<Rightarrow> nat \<Rightarrow> nat \<Rightarrow> nat \<Rightarrow> real list \<Rightarrow> error + tensor4" where
  "reshape4 a b c e xs =
     (if a * b * c * e \<noteq> length xs then Inl ValueError
      else Inr (mk_tensor4 a b c e (\<lambda>i j k l. xs ! (((i * b + j) * c + k) * e + l))))"

section \<open>Strided slices of the naive convolution gradient\<close>











section \<open>The unrolling transform and its inverse\<close>




section \<open>Conv2D\<close>

record Conv2D = layer +
  pad :: pad_spec
  in_ch :: "nat option"
  out_ch :: nat
  stride :: nat
  dilation :: nat
  kernel_shape :: "nat \<times> nat"
  act_fn :: activation







definition mk_tensor3 :: "nat \<Rightarrow> nat \<Rightarrow> nat \<Rightarrow> (nat \<Rightarrow> nat \<Rightarrow> nat \<Rightarrow> real) \<Rightarrow> tensor3" where
  "mk_tensor3 a b e f = map (\<lambda>i. map (\<lambda>j. map (\<lambda>k. f i j k) [0..<e]) [0..<b]) [0..<a]"








section \<open>Basic facts\<close>

lemmas np_defs = thenE_def nrows_def ncols_def mk_matrix_def np_zeros_def zeros_like_m_def
  np_T_def np_dot_def bcast_dim_def bget_def np_binop_def np_add_def np_sub_def np_mul_def
  sum_axis0_def dict_get_def dict_set_def as_arr_def get_arr_def zeros_like_def act_fn_of_def
  act_grad_of_def rand_def bernoulli_def Let_def

lemma thenE_Inr_iff: "thenE m f = Inr y \<longleftrightarrow> (\<exists>x. m = Inr x \<and> f x = Inr y)"
  by (cases m) (simp_all add: thenE_def)

lemma dict_get_set: "dict_get (dict_set d k v) k' = (if k' = k then Inr v else dict_get d k')"
  by (simp add: dict_get_def dict_set_def update_conv')

lemma as_arr_Inr_iff: "as_arr v = Inr M \<longleftrightarrow> v = PArr M"
  by (cases v) (simp_all add: as_arr_def)

lemma get_arr_Inr_iff: "get_arr d k = Inr M \<longleftrightarrow> dict_get d k = Inr (PArr M)"
  by (auto simp: get_arr_def thenE_Inr_iff as_arr_Inr_iff)

section \<open>Restricted Boltzmann Machine: the gradients of contrastive divergence\<close>

lemma RBM_forward_cached:
  assumes "RBM_forward l V Kopt = Inr l1"
  shows "\<exists>p_H p_V_prime p_H_prime positive_grad negative_grad.
           dict_get (derived_variables l1) ''V'' = Inr (PArr V) \<and>
           dict_get (derived_variables l1) ''p_H'' = Inr (PArr p_H) \<and>
           dict_get (derived_variables l1) ''p_V_prime'' = Inr (PArr p_V_prime) \<and>
           dict_get (derived_variables l1) ''p_H_prime'' = Inr (PArr p_H_prime) \<and>
           dict_get (derived_variables l1) ''positive_grad'' = Inr (PArr positive_grad) \<and>
           dict_get (derived_variables l1) ''negative_grad'' = Inr (PArr negative_grad) \<and>
           np_dot (np_T V) p_H = Inr positive_grad \<and>
           np_dot (np_T p_V_prime) p_H_prime = Inr negative_grad"
  using assms
  by (auto simp: RBM_forward_def Let_def case_prod_beta thenE_Inr_iff dict_get_set
           split: option.splits)

text \<open>
  Claim C3. When \<^verbatim>\<open>forward(V)\<close> and then \<^verbatim>\<open>backward()\<close> return, the forward call has
  cached \<open>V\<close>, \<open>p_H\<close>, \<open>p_V_prime\<close> and \<open>p_H_prime\<close>, and the gradients stored by backward
  are \<open>V - p_V_prime\<close> for the visible bias, \<open>p_H - p_H_prime\<close> for the hidden bias and
  \<open>V\<^sup>T p_H - p_V_prime\<^sup>T p_H_prime\<close> for the weights.
\<close>

theorem RBM_backward_gradients:
  assumes fwd: "RBM_forward l V Kopt = Inr l1"
    and bwd: "RBM_backward l1 = Inr l2"
  shows "\<exists>p_H p_V_prime p_H_prime positive_grad negative_grad g_b_in g_b_out g_W.
           dict_get (derived_variables l1) ''V'' = Inr (PArr V) \<and>
           dict_get (derived_variables l1) ''p_H'' = Inr (PArr p_H) \<and>
           dict_get (derived_variables l1) ''p_V_prime'' = Inr (PArr p_V_prime) \<and>
           dict_get (derived_variables l1) ''p_H_prime'' = Inr (PArr p_H_prime) \<and>
           np_sub V p_V_prime = Inr g_b_in \<and>
           dict_get (gradients l2) ''b_in'' = Inr (PArr g_b_in) \<and>
           np_sub p_H p_H_prime = Inr g_b_out \<and>
           dict_get (gradients l2) ''b_out'' = Inr (PArr g_b_out) \<and>
           np_dot (np_T V) p_H = Inr positive_grad \<and>
           np_dot (np_T p_V_prime) p_H_prime = Inr negative_grad \<and>
           np_sub positive_grad negative_grad = Inr g_W \<and>
           dict_get (gradients l2) ''W'' = Inr (PArr g_W)"
proof -
  from RBM_forward_cached [OF fwd]
  obtain p_H p_V_prime p_H_prime positive_grad negative_grad where
    g: "dict_get (derived_variables l1) ''V'' = Inr (PArr V)"
    "dict_get (derived_variables l1) ''p_H'' = Inr (PArr p_H)"
    "dict_get (derived_variables l1) ''p_V_prime'' = Inr (PArr p_V_prime)"
    "dict_get (derived_variables l1) ''p_H_prime'' = Inr (PArr p_H_prime)"
    "dict_get (derived_variables l1) ''positive_grad'' = Inr (PArr positive_grad)"
    "dict_get (derived_variables l1) ''negative_grad'' = Inr (PArr negative_grad)"
    and pg: "np_dot (np_T V) p_H = Inr positive_grad"
    and ng: "np_dot (np_T p_V_prime) p_H_prime = Inr negative_grad"
    by blast
  from bwd obtain g_b_in g_b_out g_W where
    s: "np_sub V p_V_prime = Inr g_b_in" "np_sub p_H p_H_prime = Inr g_b_out"
       "np_sub positive_grad negative_grad = Inr g_W"
    and l2: "l2 = l1\<lparr>gradients := dict_set (dict_set (dict_set (gradients l1)
              ''b_in'' (PArr g_b_in)) ''b_out'' (PArr g_b_out)) ''W'' (PArr g_W)\<rparr>"
    by (auto simp: RBM_backward_def thenE_Inr_iff g as_arr_Inr_iff)
  show ?thesis
    using g pg ng s by (simp add: l2 dict_get_set)
qed

lemma rbm0_runs:
  "\<exists>l1 l2. RBM_forward rbm0 [[1]] None = Inr l1 \<and> RBM_backward l1 = Inr l2 \<and>
     dict_get (gradients l2) ''W'' = Inr (PArr [[1 / 4]]) \<and>
     dict_get (gradients l2) ''b_in'' = Inr (PArr [[1 / 2]]) \<and>
     dict_get (gradients l2) ''b_out'' = Inr (PArr [[0]])"
  by (simp add: np_defs rbm0_def Sigmoid_def RBM_forward_def RBM_init_params_def
        gibbs_step_def RBM_backward_def)

theorem RBM_backward_gradients_witness:
  "\<exists>l1 l2. RBM_forward rbm0 [[1]] None = Inr l1 \<and> RBM_backward l1 = Inr l2 \<and>
     (\<exists>p_H p_V_prime p_H_prime positive_grad negative_grad g_b_in g_b_out g_W.
           dict_get (derived_variables l1) ''V'' = Inr (PArr [[1]]) \<and>
           dict_get (derived_variables l1) ''p_H'' = Inr (PArr p_H) \<and>
           dict_get (derived_variables l1) ''p_V_prime'' = Inr (PArr p_V_prime) \<and>
           dict_get (derived_variables l1) ''p_H_prime'' = Inr (PArr p_H_prime) \<and>
           np_sub [[1]] p_V_prime = Inr g_b_in \<and>
           dict_get (gradients l2) ''b_in'' = Inr (PArr g_b_in) \<and>
           np_sub p_H p_H_prime = Inr g_b_out \<and>
           dict_get (gradients l2) ''b_out'' = Inr (PArr g_b_out) \<and>
           np_dot (np_T [[1]]) p_H = Inr positive_grad \<and>
           np_dot (np_T p_V_prime) p_H_prime = Inr negative_grad \<and>
           np_sub positive_grad negative_grad = Inr g_W \<and>
           dict_get (gradients l2) ''W'' = Inr (PArr g_W))"
proof -
  from rbm0_runs obtain l1 l2 where
    f: "RBM_forward rbm0 [[1]] None = Inr l1" and b: "RBM_backward l1 = Inr l2"
    by blast
  from RBM_backward_gradients [OF f b] f b show ?thesis
    by blast
qed

section \<open>Restricted Boltzmann Machine: which Gibbs steps resample\<close>

text \<open>
  The body of the CD-k loop compares the loop index with the attribute \<^verbatim>\<open>self.K\<close>, not with
  the number of steps the call runs.
\<close>

lemma gibbs_step_sampling:
  assumes "gibbs_step l W b_in b_out k (H, pr, pos) = Inr (H', pr', pos')"
  shows "\<exists>p_V_prime p_H_prime. pr' = Some (p_V_prime, p_H_prime) \<and>
           (if int k = K l - 1 then H' = p_H_prime \<and> pos' = pos
            else (H', pos') = bernoulli (rng l) pos p_H_prime)"
proof (cases "int k = K l - 1")
  case True
  with assms show ?thesis
    by (auto simp: gibbs_step_def thenE_Inr_iff Let_def)
next
  case False
  with assms show ?thesis
    by (auto simp: gibbs_step_def thenE_Inr_iff Let_def case_prod_beta)
qed

text \<open>
  Claim C6, at the failing input: a machine with \<^verbatim>\<open>self.K = 1\<close> whose forward is called with
  \<^verbatim>\<open>K = 2\<close> (as \<^verbatim>\<open>reconstruct(X, n_steps=2)\<close> does). The loop starts from the sampled
  hidden state \<open>[[1]]\<close> at position 1 of the random stream. After the first of the two
  steps the hidden state is the raw probability \<open>[[1/2]]\<close> and no draw was made; after the
  second and last step it is the binary sample \<open>[[1]]\<close> and one draw was made.
\<close>

theorem RBM_gibbs_ignores_K_argument:
  "gibbs rbm1 [[0]] [[0]] [[0]] [0..<nat 1] ([[1]], None, 1)
     = Inr ([[1 / 2]], Some ([[1 / 2]], [[1 / 2]]), 1) \<and>
   gibbs rbm1 [[0]] [[0]] [[0]] [0..<nat 2] ([[1]], None, 1)
     = Inr ([[1]], Some ([[1 / 2]], [[1 / 2]]), 2)"
  by (simp add: np_defs rbm1_def rbm0_def Sigmoid_def gibbs_step_def eval_nat_numeral)

section \<open>The freeze contract\<close>

lemma frozen_flush_gradients: "flush_gradients (freeze l) = Inl AssertionError"
  by (simp add: flush_gradients_def freeze_def)

lemma frozen_update: "update (freeze l) = Inl AssertionError"
  by (simp add: update_def freeze_def)

text \<open>
  Claim C4, at the failing input: the machine \<open>rbm0\<close> runs forward on \<open>[[1]]\<close>, is frozen, and
  backward is called. The call returns and stores the weight gradient \<open>[[1/4]]\<close> in a layer
  that is still frozen, where the claim has it fail.
\<close>

theorem RBM_backward_on_frozen_layer:
  "\<exists>l'. thenE (RBM_forward rbm0 [[1]] None) (\<lambda>l. RBM_backward (freeze l)) = Inr l' \<and>
     \<not> trainable l' \<and> dict_get (gradients l') ''W'' = Inr (PArr [[1 / 4]])"
  by (simp add: np_defs rbm0_def Sigmoid_def RBM_forward_def RBM_init_params_def
        gibbs_step_def RBM_backward_def freeze_def)


section \<open>LayerBase: update and flush\<close>

















section \<open>The keys of gradients and parameters\<close>














section \<open>Recurrent cells: which backward calls are rejected\<close>

lemmas cell_defs = py_index_def as_list_def as_int_def get_list_def get_int_def as_operand_def
  np_iadd_def grad_iadd_def np_hstack_def RNNCell_calls_def RNNCell_forward_def
  RNNCell_init_params_def RNNCell_backward_def cell_flush_gradients_def
  RNNCell_flush_gradients_def LSTMCell_flush_gradients_def
  LSTMCell_calls_def LSTMCell_forward_def LSTMCell_init_params_def
  LSTMCell_backward_def LSTMCell_get_params_def affine_def dv_append_def dv_at_def












section \<open>Recurrent cells: the accumulators after a flush\<close>

text \<open>
  Claim C9, at the failing input: one forward call on \<open>[[0]]\<close>, one backward call on
  \<open>[[1]]\<close>, then \<^verbatim>\<open>flush_gradients()\<close>. The accumulators are now the empty list, not
  \<^verbatim>\<open>None\<close> or zero, and in the next sequence the first backward call adds the empty list to
  its upstream gradient and fails with a shape error.
\<close>

theorem cell_accumulator_after_flush:
  "(\<exists>l. thenE (RNNCell_calls rnn0 [[[0]]] [[[1]]]) (\<lambda>r. RNNCell_flush_gradients (snd r)) = Inr l \<and>
      dict_get (derived_variables l) ''dLdA_accumulator'' = Inr (PList []) \<and>
      RNNCell_calls l [[[0]]] [[[1]]] = Inl ValueError) \<and>
   (\<exists>m. thenE (LSTMCell_calls lstm0 [[[0]]] [[[1]]]) (\<lambda>r. LSTMCell_flush_gradients (snd r)) = Inr m \<and>
      dict_get (derived_variables m) ''dLdA_accumulator'' = Inr (PList []) \<and>
      dict_get (derived_variables m) ''dLdC_accumulator'' = Inr (PList []) \<and>
      LSTMCell_calls m [[[0]]] [[[1]]] = Inl ValueError)"
  by (simp add: np_defs cell_defs rnn0_def lstm0_def Tanh_def Sigmoid_def)


section \<open>LSTMCell: the gradient of the update-gate bias\<close>

lemma lstm_loss_eq: "lstm_loss b = max 0 b"
  by (simp add: lstm_loss_def np_defs cell_defs lstm_bu_def Affine_def ReLU_def)

lemma lstm_loss_deriv: "DERIV lstm_loss (- 1) :> 0"
proof -
  have "eventually (\<lambda>b. lstm_loss b = 0) (nhds (- 1))"
    unfolding eventually_nhds
    by (rule exI [of _ "{..<0}"]) (auto simp: lstm_loss_eq)
  then have "DERIV lstm_loss (- 1) :> 0 \<longleftrightarrow> DERIV (\<lambda>b. 0 :: real) (- 1) :> 0"
    by (intro DERIV_cong_ev) simp_all
  then show ?thesis by simp
qed

text \<open>
  Claim C2, at the failing input: the cell \<open>lstm_bu (-1)\<close> runs one forward call on
  \<open>[[0]]\<close> and one backward call on the upstream gradient \<open>[[1]]\<close>. The loss, as a function
  of the update-gate bias, has derivative 0 at \<open>bu = -1\<close> (the update gate is closed: its
  pre-activation is \<open>Z W\<^sub>u + b\<^sub>u = -1\<close>), and the backward call stores \<open>[[1]]\<close> as the gradient
  of \<open>bu\<close>: it takes the local derivative of the gate at \<open>Z W\<^sub>u + b\<^sub>o = 1\<close>.
\<close>

theorem LSTMCell_update_gate_gradient:
  "DERIV lstm_loss (- 1) :> 0 \<and>
   (\<exists>l. LSTMCell_calls (lstm_bu (- 1)) [[[0]]] [[[1]]] = Inr ([[[1 / 2]]], l) \<and>
      dict_get (gradients l) ''bu'' = Inr (PArr [[1]]))"
  using lstm_loss_deriv
  by (simp add: np_defs cell_defs lstm_bu_def Affine_def ReLU_def)


section \<open>Pool2D: where max pooling sends the gradient\<close>

lemmas pool_defs = dim1_def dim2_def dim3_def dim4_def mk_tensor4_def zeros_like_t_def
  effective_kernel_def same_pad_def pad_dims_def zero_pad_def pad2D_def crop_def indices4_def
  index4_def window_def slice_iadd_def np_max_def np_mean_def first_argwhere_def
  Pool2D_init_params_def out_dim_def Pool2D_forward_def Pool2D_backward_step_def
  Pool2D_backward_def Pool2D_forward_backward_def

text \<open>
  Claim C7, at the failing input: the layer \<open>pool0\<close> (2 x 2 kernel, stride 1, one row and
  one column of zeros before the input) on the 2 x 2 input with rows \<open>4 3\<close> and \<open>2 1\<close>. The
  output has 2 x 2 windows; the last of them covers the whole input, whose maximum 4 is
  at the first position. With upstream gradient 1 for that window and 0 for the others,
  the forward pass pools 4 in every window, and the backward pass gives every one of the
  four input positions the gradient 1: it looks for the maximum in the window of the
  unpadded input, which here is the single entry 1, and broadcasts the one-entry mask
  over the 2 x 2 slice of the padded gradient.
\<close>

theorem Pool2D_backward_padded_input:
  "map_sum id fst (Pool2D_forward pool0 [[[[4], [3]], [[2], [1]]]])
     = Inr [[[[4], [4]], [[4], [4]]]] \<and>
   Pool2D_forward_backward pool0 [[[[4], [3]], [[2], [1]]]] [[[[0], [0]], [[0], [1]]]]
     = Inr [[[[1], [1]], [[1], [1]]]]"
  by (simp add: np_defs cell_defs pool_defs pool0_def eval_nat_numeral)


section \<open>Arrays built from an index function\<close>

lemma mk_tensor4_nth [simp]:
  "m < n \<Longrightarrow> i < r \<Longrightarrow> j < c \<Longrightarrow> ch < k \<Longrightarrow> mk_tensor4 n r c k f ! m ! i ! j ! ch = f m i j ch"
  by (simp add: mk_tensor4_def)




lemma mk_matrix_nth [simp]: "i < r \<Longrightarrow> j < c \<Longrightarrow> mk_matrix r c f ! i ! j = f i j"
  by (simp add: mk_matrix_def)



lemma map_upt_nth: "length xs = n \<Longrightarrow> map (\<lambda>i. xs ! i) [0..<n] = xs"
  using map_nth [of xs] by auto



section \<open>Row-major order\<close>

lemma length_concat_uniform:
  "(\<And>xs. xs \<in> set xss \<Longrightarrow> length xs = n) \<Longrightarrow> length (concat xss) = length xss * n"
  by (induction xss) auto

lemma nth_concat_uniform:
  assumes "\<And>xs. xs \<in> set xss \<Longrightarrow> length xs = n" and "q < length xss * n"
  shows "concat xss ! q = xss ! (q div n) ! (q mod n)"
  using assms
proof (induction xss arbitrary: q)
  case Nil
  then show ?case by simp
next
  case (Cons a xss)
  have la: "length a = n" using Cons.prems(1) by simp
  show ?case
  proof (cases "q < n")
    case True
    then show ?thesis by (simp add: nth_append la)
  next
    case False
    then have q: "q - n < length xss * n" using Cons.prems(2) by auto
    have n0: "0 < n" using Cons.prems(2) False by (cases n) auto
    have "concat xss ! (q - n) = xss ! ((q - n) div n) ! ((q - n) mod n)"
      using Cons.IH [OF _ q] Cons.prems(1) by simp
    moreover have "(q - n) div n = q div n - 1" "(q - n) mod n = q mod n"
      using False n0 by (simp_all add: le_div_geq le_mod_geq)
    moreover have "0 < q div n" using False n0 by (simp add: div_greater_zero_iff)
    ultimately show ?thesis using False
      by (simp add: nth_append la nth_Cons')
  qed
qed


lemma length_concat_map_upt:
  "length (concat (map (\<lambda>i. map (g i) [0..<n]) [0..<m])) = m * n"
  by (induction m) simp_all

lemma concat_map_upt:
  "concat (map (\<lambda>i. map (g i) [0..<n]) [0..<m]) = map (\<lambda>q. g (q div n) (q mod n)) [0..<m * n]"
proof (rule nth_equalityI)
  show "length (concat (map (\<lambda>i. map (g i) [0..<n]) [0..<m])) =
        length (map (\<lambda>q. g (q div n) (q mod n)) [0..<m * n])"
    by (simp add: length_concat_map_upt)
next
  fix q assume "q < length (concat (map (\<lambda>i. map (g i) [0..<n]) [0..<m]))"
  then have q: "q < m * n"
    by (simp add: length_concat_map_upt)
  then have n0: "0 < n" by (cases n) auto
  have d: "q div n < m" using q n0 by (simp add: less_mult_imp_div_less)
  have "concat (map (\<lambda>i. map (g i) [0..<n]) [0..<m]) ! q =
        map (\<lambda>i. map (g i) [0..<n]) [0..<m] ! (q div n) ! (q mod n)"
    by (rule nth_concat_uniform) (use q in auto)
  also have "\<dots> = g (q div n) (q mod n)" using d n0 by simp
  finally show "concat (map (\<lambda>i. map (g i) [0..<n]) [0..<m]) ! q =
                map (\<lambda>q. g (q div n) (q mod n)) [0..<m * n] ! q"
    using q by simp
qed

lemma concat_map_upt':
  "concat (map (\<lambda>p. map (g p) [0..<n]) (map h [0..<m])) =
   map (\<lambda>q. g (h (q div n)) (q mod n)) [0..<m * n]"
  using concat_map_upt [of "\<lambda>i. g (h i)" n m] by (simp add: comp_def)



lemma reshape4_map:
  assumes "length xs = a * b * c * e"
  shows "reshape4 a b c e xs = Inr (mk_tensor4 a b c e (\<lambda>i j k l. xs ! (((i * b + j) * c + k) * e + l)))"
  using assms by (simp add: reshape4_def)







section \<open>The operations of the naive gradient on arrays built from index functions\<close>

lemma mk_tensor3_nth [simp]:
  "i < a \<Longrightarrow> j < b \<Longrightarrow> k < e \<Longrightarrow> mk_tensor3 a b e f ! i ! j ! k = f i j k"
  by (simp add: mk_tensor3_def)









lemma div_lt_of_in_slice:
  fixes r i0 step cr :: nat
  shows "(r - i0) div step < cr \<Longrightarrow> (r - i0) div step < cr"
  by simp





section \<open>The loops of the naive gradient\<close>




section \<open>Sums over flattened indices\<close>








section \<open>Decoding flattened indices\<close>



section \<open>The column matrices of the vectorised gradient\<close>












section \<open>The sums of the two gradient computations agree\<close>









section \<open>The two gradient computations of Conv2D\<close>









end
